theory Spec2Isabelle
  imports Main
begin

section \<open>Data model of \<open>plugin_info_message_filter.cc\<close>\<close>

text \<open>
  The file answers two renderer messages: \<open>GetPluginInfo\<close> (which plugin serves a MIME
  type, and with which status) and \<open>IsInternalPluginAvailableForMimeType\<close>. The plugin
  service, its availability filter and the guest registry are singletons the file only
  queries; they are gathered in the record \<open>Collaborators\<close> below and passed explicitly.
\<close>

type_synonym GURL = string
type_synonym FilePath = string
type_synonym string16 = string
type_synonym ResourceContext = nat

text \<open>
  The status values the file assigns. The enum itself is declared in the message header;
  these are the five enumerators that occur in the source.
\<close>

datatype ChromeViewHostMsg_GetPluginInfo_Status =
    kAllowed
  | kDisabled
  | kNotFound
  | kNPAPINotSupported
  | kUnauthorized

text \<open>
  Modelled from the spec: the plugin type enum of \<open>WebPluginInfo\<close>, whose declaration is
  in \<open>webplugininfo.h\<close>: a small closed set that includes the legacy in-process type
  \<open>PLUGIN_TYPE_NPAPI\<close>, the only enumerator the source names.
\<close>

datatype PluginType =
    PLUGIN_TYPE_NPAPI
  | PLUGIN_TYPE_PEPPER_IN_PROCESS
  | PLUGIN_TYPE_PEPPER_OUT_OF_PROCESS
  | PLUGIN_TYPE_PEPPER_UNSANDBOXED

text \<open>The fields of \<open>WebPluginMimeType\<close> and \<open>WebPluginInfo\<close> that the source reads.\<close>

record WebPluginMimeType =
  mime_type :: string
  additional_param_names :: "string16 list"
  additional_param_values :: "string16 list"

record WebPluginInfo =
  path :: FilePath
  type :: PluginType
  mime_types :: "WebPluginMimeType list"

text \<open>\<open>struct PluginInfoMessageFilter::GetPluginInfo_Params\<close>.\<close>

record GetPluginInfo_Params =
  render_frame_id :: int
  url :: GURL
  top_origin_url :: GURL
  mime_type :: string

text \<open>
  The members of \<open>PluginInfoMessageFilter::Context\<close> (\<open>render_process_id_\<close> and
  \<open>resource_context_\<close> in the source).
\<close>

record Context =
  render_process_id :: int
  resource_context :: ResourceContext

text \<open>
  The reply \<open>ChromeViewHostMsg_GetPluginInfo_Output\<close>. In the source \<open>plugin\<close> is a
  \<open>WebPluginInfo\<close> value; \<open>None\<close> stands for the default-constructed object that no
  statement has assigned, \<open>Some p\<close> for an object assigned from the candidate \<open>p\<close>.
\<close>

record ChromeViewHostMsg_GetPluginInfo_Output =
  status :: ChromeViewHostMsg_GetPluginInfo_Status
  plugin :: "WebPluginInfo option"
  actual_mime_type :: string

text \<open>
  \<open>content::PluginServiceFilter::IsPluginAvailable\<close>: process id, frame id, resource
  context, URL, top-level URL and the plugin. The source hands the plugin over as
  \<open>&matching_plugins[i]\<close>, a pointer to a non-const element, so the call can change it.
  The filter's declaration is not in this file; by its interface it returns false to
  disallow the plugin, or returns true and may change the plugin passed in. \<open>None\<close> is
  the answer false, which leaves the plugin as it was; \<open>Some p'\<close> is the answer true,
  with \<open>p'\<close> the plugin as the call leaves it (the plugin passed in, when the filter
  does not change it).
\<close>

type_synonym PluginServiceFilter =
  "int \<Rightarrow> int \<Rightarrow> ResourceContext \<Rightarrow> GURL \<Rightarrow> GURL \<Rightarrow> WebPluginInfo \<Rightarrow> WebPluginInfo option"

text \<open>
  The queries the file makes of \<open>PluginService::GetInstance()\<close> and of
  \<open>WebViewRendererState::GetInstance()\<close>, and the build condition
  \<open>defined(OS_WIN) || defined(OS_MACOSX)\<close>. \<open>GetPluginInfoArray\<close> takes the URL, the MIME
  type and \<open>allow_wildcard\<close> and fills two vectors; \<open>GetFilter\<close> may be a null pointer.
\<close>

record Collaborators =
  GetPluginInfoArray :: "GURL \<Rightarrow> string \<Rightarrow> bool \<Rightarrow> WebPluginInfo list \<times> string list"
  NPAPIPluginsSupported :: bool
  GetFilter :: "PluginServiceFilter option"
  IsPluginUnstable :: "FilePath \<Rightarrow> bool"
  GetInternalPlugins :: "WebPluginInfo list"
  IsGuest :: "int \<Rightarrow> bool"
  OS_WIN_or_OS_MACOSX :: bool

definition kPepperPluginMimeTypes :: "string list" where
  "kPepperPluginMimeTypes =
     [''application/pdf'',
      ''application/x-google-chrome-pdf'',
      ''application/x-nacl'',
      ''application/x-pnacl'',
      ''application/vnd.chromium.remoting-viewer'',
      ''application/x-shockwave-flash'',
      ''application/futuresplash'']"

section \<open>\<open>FindEnabledPlugin\<close>\<close>

text \<open>
  The range-for over \<open>kPepperPluginMimeTypes\<close>: \<open>True\<close> when the loop body returns, that
  is when some entry equals the requested MIME type.
\<close>

fun pepper_mime_type_loop :: "string list \<Rightarrow> string \<Rightarrow> bool" where
  "pepper_mime_type_loop [] mime_type' = False"
| "pepper_mime_type_loop (pepper_mime_type # rest) mime_type' =
     (if pepper_mime_type = mime_type' then True
      else pepper_mime_type_loop rest mime_type')"

text \<open>
  The loop condition \<open>!filter || filter->IsPluginAvailable(..., &matching_plugins[i])\<close>
  for one plugin: the value of the condition and the plugin as the call leaves it.
\<close>

definition plugin_available ::
  "Context \<Rightarrow> PluginServiceFilter option \<Rightarrow> int \<Rightarrow> GURL \<Rightarrow> GURL \<Rightarrow> WebPluginInfo \<Rightarrow>
   bool \<times> WebPluginInfo" where
  "plugin_available ctx filter' render_frame_id' url' top_origin_url' p =
     (case filter' of
        None \<Rightarrow> (True, p)
      | Some f \<Rightarrow>
          (case f (render_process_id ctx) render_frame_id' (resource_context ctx)
                  url' top_origin_url' p of
             None \<Rightarrow> (False, p)
           | Some p' \<Rightarrow> (True, p')))"

text \<open>
  \<open>for (; i < matching_plugins.size(); ++i) if (available) break;\<close> started at \<open>i\<close>.
  Each call may write to \<open>matching_plugins[i]\<close>, so the vector is threaded through the
  loop; the result is the value of \<open>i\<close> after the loop and the vector as the loop
  leaves it.
\<close>

function first_available_loop ::
  "(WebPluginInfo \<Rightarrow> bool \<times> WebPluginInfo) \<Rightarrow> WebPluginInfo list \<Rightarrow> nat \<Rightarrow>
   nat \<times> WebPluginInfo list" where
  "first_available_loop avail matching_plugins i =
     (if i < length matching_plugins then
        (let answer = avail (matching_plugins ! i);
             matching_plugins' = matching_plugins[i := snd answer]
         in if fst answer then (i, matching_plugins')
            else first_available_loop avail matching_plugins' (i + 1))
      else (i, matching_plugins))"
  by pat_completeness auto
termination
  by (relation "measure (\<lambda>(avail, matching_plugins, i). length matching_plugins - i)") auto

declare first_available_loop.simps [simp del]

text \<open>
  The out-parameters \<open>status\<close>, \<open>plugin\<close> and \<open>actual_mime_type\<close> are the fields of the
  reply passed in and returned; the Boolean is the function's return value.
\<close>

definition FindEnabledPlugin ::
  "Context \<Rightarrow> Collaborators \<Rightarrow> int \<Rightarrow> GURL \<Rightarrow> GURL \<Rightarrow> string \<Rightarrow>
   ChromeViewHostMsg_GetPluginInfo_Output \<Rightarrow> bool \<times> ChromeViewHostMsg_GetPluginInfo_Output" where
  "FindEnabledPlugin ctx env render_frame_id' url' top_origin_url' mime_type' output =
     (let output1 = output\<lparr>status := kAllowed\<rparr>;
          allow_wildcard = True;
          (matching_plugins, actual_mime_types) =
             GetPluginInfoArray env url' mime_type' allow_wildcard
      in
        if matching_plugins = [] then
          (let output2 = output1\<lparr>status := kNotFound\<rparr> in
             if OS_WIN_or_OS_MACOSX env \<and> \<not> NPAPIPluginsSupported env then
               (if pepper_mime_type_loop kPepperPluginMimeTypes mime_type'
                then (False, output2)
                else (False, output2))
             else (False, output2))
        else
          (let filter' = GetFilter env;
               (i, matching_plugins') =
                  first_available_loop
                    (plugin_available ctx filter' render_frame_id' url' top_origin_url')
                    matching_plugins 0;
               enabled = i < length matching_plugins';
               i' = (if \<not> enabled then 0 else i);
               output3 = (if \<not> enabled then output1\<lparr>status := kDisabled\<rparr> else output1)
           in (enabled,
               output3\<lparr>plugin := Some (matching_plugins' ! i'),
                        actual_mime_type := actual_mime_types ! i'\<rparr>)))"

section \<open>\<open>DecidePluginStatus\<close> and \<open>PluginsLoaded\<close>\<close>

text \<open>
  \<open>DecidePluginStatus\<close> reads the plugin and rewrites \<open>*status\<close>; the model takes the
  status on entry and returns the status on exit. \<open>after_npapi_check\<close> is the code from
  the instability check to the end of the function, reached when the NPAPI block does not
  return. The \<open>CHECK\<close> on the current thread is not part of the model.
\<close>

definition DecidePluginStatus ::
  "Context \<Rightarrow> Collaborators \<Rightarrow> GetPluginInfo_Params \<Rightarrow> WebPluginInfo \<Rightarrow>
   ChromeViewHostMsg_GetPluginInfo_Status \<Rightarrow> ChromeViewHostMsg_GetPluginInfo_Status" where
  "DecidePluginStatus ctx env params p status' =
     (let after_npapi_check =
            (if IsPluginUnstable env (path p) then kUnauthorized
             else if status' = kAllowed then
               (if IsGuest env (render_process_id ctx) then kUnauthorized else status')
             else status')
      in
        if type p = PLUGIN_TYPE_NPAPI then
          (if IsGuest env (render_process_id ctx) then kNPAPINotSupported
           else after_npapi_check)
        else after_npapi_check)"

text \<open>
  The reply object as \<open>PluginsLoaded\<close> declares it, before \<open>FindEnabledPlugin\<close> runs: no
  plugin assigned, the empty string. Its status is overwritten by the first statement of
  \<open>FindEnabledPlugin\<close> before anything reads it.
\<close>

definition Output_default :: ChromeViewHostMsg_GetPluginInfo_Output where
  "Output_default = \<lparr>status = kAllowed, plugin = None, actual_mime_type = []\<rparr>"

text \<open>
  The reply that \<open>PluginsLoaded\<close> writes and sends. \<open>DecidePluginStatus\<close> is handed
  \<open>output.plugin\<close>, which \<open>FindEnabledPlugin\<close> has assigned whenever it returns true.
\<close>

definition PluginsLoaded ::
  "Context \<Rightarrow> Collaborators \<Rightarrow> GetPluginInfo_Params \<Rightarrow> ChromeViewHostMsg_GetPluginInfo_Output" where
  "PluginsLoaded ctx env params =
     (case FindEnabledPlugin ctx env (render_frame_id params) (url params)
             (top_origin_url params) (mime_type params) Output_default of
        (found, output) \<Rightarrow>
          if found then
            (case plugin output of
               Some p \<Rightarrow> output\<lparr>status := DecidePluginStatus ctx env params p (status output)\<rparr>
             | None \<Rightarrow> output)
          else output)"

section \<open>\<open>OnIsInternalPluginAvailableForMimeType\<close>\<close>

text \<open>
  The inner loop over one plugin's \<open>mime_types\<close> and the outer loop over the internal
  plugins; the result is the entry at which the body returns, if it does. The log lines
  the function appends to a file are not part of the model.
\<close>

fun mime_types_loop :: "WebPluginMimeType list \<Rightarrow> string \<Rightarrow> WebPluginMimeType option" where
  "mime_types_loop [] mime_type' = None"
| "mime_types_loop (mt # rest) mime_type' =
     (if WebPluginMimeType.mime_type mt = mime_type' then Some mt
      else mime_types_loop rest mime_type')"

fun plugins_loop :: "WebPluginInfo list \<Rightarrow> string \<Rightarrow> WebPluginMimeType option" where
  "plugins_loop [] mime_type' = None"
| "plugins_loop (p # rest) mime_type' =
     (case mime_types_loop (mime_types p) mime_type' of
        Some mt \<Rightarrow> Some mt
      | None \<Rightarrow> plugins_loop rest mime_type')"

text \<open>
  The three out-parameters \<open>is_available\<close>, \<open>additional_param_names\<close> and
  \<open>additional_param_values\<close> are passed in and returned: on a match all three are
  written, otherwise only \<open>*is_available\<close>.
\<close>

definition OnIsInternalPluginAvailableForMimeType ::
  "Collaborators \<Rightarrow> string \<Rightarrow> bool \<times> string16 list \<times> string16 list \<Rightarrow>
   bool \<times> string16 list \<times> string16 list" where
  "OnIsInternalPluginAvailableForMimeType env mime_type' out =
     (case out of
        (is_available, names, vals) \<Rightarrow>
          (case plugins_loop (GetInternalPlugins env) mime_type' of
             Some mt \<Rightarrow> (True, additional_param_names mt, additional_param_values mt)
           | None \<Rightarrow> (False, names, vals)))"

text \<open>
  Modelled from the spec: the dispatch of the message (the \<open>IPC_MESSAGE_HANDLER\<close> macro,
  whose definition is not in this file) calls the handler on freshly constructed reply
  parameters, \<open>false\<close> and two empty vectors, and sends back what the handler leaves in
  them.
\<close>

definition IsInternalPluginAvailableForMimeType_reply ::
  "Collaborators \<Rightarrow> string \<Rightarrow> bool \<times> string16 list \<times> string16 list" where
  "IsInternalPluginAvailableForMimeType_reply env mime_type' =
     OnIsInternalPluginAvailableForMimeType env mime_type' (False, [], [])"

section \<open>Vocabulary of the properties\<close>

text \<open>
  The two vectors \<open>GetPluginInfoArray\<close> fills for a request; the answer of the
  availability check of that request for a plugin (true also when there is no filter);
  and the plugin as that check leaves it.
\<close>

definition candidates :: "Collaborators \<Rightarrow> GetPluginInfo_Params \<Rightarrow> WebPluginInfo list" where
  "candidates env params = fst (GetPluginInfoArray env (url params) (mime_type params) True)"

definition matched_mime_types :: "Collaborators \<Rightarrow> GetPluginInfo_Params \<Rightarrow> string list" where
  "matched_mime_types env params =
     snd (GetPluginInfoArray env (url params) (mime_type params) True)"

definition available ::
  "Context \<Rightarrow> Collaborators \<Rightarrow> GetPluginInfo_Params \<Rightarrow> WebPluginInfo \<Rightarrow> bool" where
  "available ctx env params p =
     fst (plugin_available ctx (GetFilter env) (render_frame_id params) (url params)
            (top_origin_url params) p)"

definition left_by_filter ::
  "Context \<Rightarrow> Collaborators \<Rightarrow> GetPluginInfo_Params \<Rightarrow> WebPluginInfo \<Rightarrow> WebPluginInfo" where
  "left_by_filter ctx env params p =
     snd (plugin_available ctx (GetFilter env) (render_frame_id params) (url params)
            (top_origin_url params) p)"

text \<open>The reply as \<open>FindEnabledPlugin\<close> leaves it, before any downgrade.\<close>

definition selection ::
  "Context \<Rightarrow> Collaborators \<Rightarrow> GetPluginInfo_Params \<Rightarrow> ChromeViewHostMsg_GetPluginInfo_Output" where
  "selection ctx env params =
     snd (FindEnabledPlugin ctx env (render_frame_id params) (url params)
            (top_origin_url params) (mime_type params) Output_default)"

text \<open>
  The internal-handler query in the words of its description: the first entry, in plugin
  order and then in the order of each plugin's associations, whose MIME type is the
  requested string.
\<close>

definition first_exact_match :: "WebPluginInfo list \<Rightarrow> string \<Rightarrow> WebPluginMimeType option" where
  "first_exact_match plugins mime_type' =
     find (\<lambda>mt. WebPluginMimeType.mime_type mt = mime_type') (concat (map mime_types plugins))"

section \<open>Concrete requests\<close>

text \<open>
  A small catalog used to run the functions: \<open>P1\<close> is an out-of-process plugin
  registered for \<open>application/pdf\<close>, \<open>P2\<close> an NPAPI plugin registered for every type.
  A request for \<open>application/pdf\<close> matches \<open>P1\<close> then \<open>P2\<close>, a request for \<open>video/mp4\<close>
  matches \<open>P2\<close> alone, and no other type matches.
\<close>

definition P1 :: WebPluginInfo where
  "P1 = \<lparr>path = ''/plugins/pdf'', type = PLUGIN_TYPE_PEPPER_OUT_OF_PROCESS,
         mime_types = [\<lparr>WebPluginMimeType.mime_type = ''application/pdf'',
                         additional_param_names = [''mode''],
                         additional_param_values = [''embedded'']\<rparr>]\<rparr>"

definition P2 :: WebPluginInfo where
  "P2 = \<lparr>path = ''/plugins/legacy'', type = PLUGIN_TYPE_NPAPI,
         mime_types = [\<lparr>WebPluginMimeType.mime_type = ''*'',
                         additional_param_names = [],
                         additional_param_values = []\<rparr>]\<rparr>"

definition ex_array :: "GURL \<Rightarrow> string \<Rightarrow> bool \<Rightarrow> WebPluginInfo list \<times> string list" where
  "ex_array u m w =
     (if m = ''application/pdf'' then ([P1, P2], [''application/pdf'', ''*''])
      else if m = ''video/mp4'' then ([P2], [''*''])
      else ([], []))"

definition ex_ctx :: Context where
  "ex_ctx = \<lparr>render_process_id = 7, resource_context = 1\<rparr>"

definition pdf_request :: GetPluginInfo_Params where
  "pdf_request = \<lparr>render_frame_id = 3, url = ''http://example.test/doc'',
                  top_origin_url = ''http://example.test/'',
                  mime_type = ''application/pdf''\<rparr>"

definition video_request :: GetPluginInfo_Params where
  "video_request = pdf_request\<lparr>mime_type := ''video/mp4''\<rparr>"

definition flash_request :: GetPluginInfo_Params where
  "flash_request = pdf_request\<lparr>mime_type := ''application/x-shockwave-flash''\<rparr>"

text \<open>
  The plain environment: no filter, nothing unstable, no guest process, a Windows or
  macOS build without NPAPI support. The others change one or two answers.
\<close>

definition env_plain :: Collaborators where
  "env_plain = \<lparr>GetPluginInfoArray = ex_array, NPAPIPluginsSupported = False,
                GetFilter = None, IsPluginUnstable = (\<lambda>f. False),
                GetInternalPlugins = [P2, P1], IsGuest = (\<lambda>pid. False),
                OS_WIN_or_OS_MACOSX = True\<rparr>"

definition reject_all :: PluginServiceFilter where
  "reject_all pid fid rc u t p = None"

definition accept_legacy_only :: PluginServiceFilter where
  "accept_legacy_only pid fid rc u t p =
     (if path p = ''/plugins/legacy'' then Some p else None)"

text \<open>
  A filter that accepts the PDF plugin and replaces its path, as a filter that
  substitutes another build of a plugin does; it rejects every other plugin.
\<close>

definition replace_pdf :: PluginServiceFilter where
  "replace_pdf pid fid rc u t p =
     (if path p = ''/plugins/pdf'' then Some (p\<lparr>path := ''/plugins/replaced''\<rparr>) else None)"

definition P1_replaced :: WebPluginInfo where
  "P1_replaced = P1\<lparr>path := ''/plugins/replaced''\<rparr>"

definition env_guest :: Collaborators where
  "env_guest = env_plain\<lparr>IsGuest := (\<lambda>pid. pid = 7)\<rparr>"

definition env_rejecting :: Collaborators where
  "env_rejecting = env_plain\<lparr>GetFilter := Some reject_all\<rparr>"

definition env_unstable :: Collaborators where
  "env_unstable = env_plain\<lparr>IsPluginUnstable := (\<lambda>f. True)\<rparr>"

definition env_guest_unstable :: Collaborators where
  "env_guest_unstable = env_guest\<lparr>IsPluginUnstable := (\<lambda>f. True)\<rparr>"

definition env_rejecting_guest_unstable :: Collaborators where
  "env_rejecting_guest_unstable = env_guest_unstable\<lparr>GetFilter := Some reject_all\<rparr>"

definition env_legacy_only :: Collaborators where
  "env_legacy_only = env_plain\<lparr>GetFilter := Some accept_legacy_only\<rparr>"

definition env_legacy_only_guest :: Collaborators where
  "env_legacy_only_guest = env_guest\<lparr>GetFilter := Some accept_legacy_only\<rparr>"

definition env_replacing :: Collaborators where
  "env_replacing = env_plain\<lparr>GetFilter := Some replace_pdf\<rparr>"

section \<open>The selection loop\<close>

text \<open>
  A call that answers false leaves the plugin as it was, and without a filter the
  condition is true and the plugin untouched.
\<close>

lemma plugin_available_rejected:
  "\<not> fst (plugin_available ctx f r u t p) \<Longrightarrow> snd (plugin_available ctx f r u t p) = p"
  by (simp add: plugin_available_def split: option.splits)

lemma plugin_available_no_filter: "plugin_available ctx None r u t p = (True, p)"
  by (simp add: plugin_available_def)

text \<open>
  One step of the loop, and its result: it runs to the end, leaving the vector as it
  was, when no candidate is available, and otherwise stops at the first available
  candidate, having written to that entry alone.
\<close>

lemma loop_step_rejected:
  assumes "i < length ps" "\<not> fst (avail (ps ! i))" "snd (avail (ps ! i)) = ps ! i"
  shows "first_available_loop avail ps i = first_available_loop avail ps (i + 1)"
  using assms by (subst first_available_loop.simps) (simp add: Let_def)

lemma loop_step_accepted:
  assumes "i < length ps" "fst (avail (ps ! i))"
  shows "first_available_loop avail ps i = (i, ps[i := snd (avail (ps ! i))])"
  using assms by (subst first_available_loop.simps) (simp add: Let_def)

lemma loop_step_end:
  assumes "\<not> i < length ps"
  shows "first_available_loop avail ps i = (i, ps)"
  using assms by (subst first_available_loop.simps) simp

lemma loop_all_rejected:
  assumes rej: "\<And>p. \<not> fst (avail p) \<Longrightarrow> snd (avail p) = p"
    and all: "\<forall>p\<in>set ps. \<not> fst (avail p)"
  shows "i \<le> length ps \<Longrightarrow> first_available_loop avail ps i = (length ps, ps)"
proof (induction "length ps - i" arbitrary: i)
  case 0
  then have "\<not> i < length ps" and "i = length ps" by simp_all
  then show ?case by (simp add: loop_step_end)
next
  case (Suc n)
  then have lt: "i < length ps" by simp
  with all have no: "\<not> fst (avail (ps ! i))" by simp
  from Suc(2) lt have "n = length ps - (i + 1)" by simp
  moreover from lt have "i + 1 \<le> length ps" by simp
  ultimately have "first_available_loop avail ps (i + 1) = (length ps, ps)" by (rule Suc(1))
  with loop_step_rejected [of i ps avail, OF lt no rej [OF no]] show ?case by simp
qed

lemma loop_stops:
  assumes rej: "\<And>p. \<not> fst (avail p) \<Longrightarrow> snd (avail p) = p"
  shows "i \<le> k \<Longrightarrow> k < length ps \<Longrightarrow> fst (avail (ps ! k)) \<Longrightarrow>
         \<forall>j. i \<le> j \<and> j < k \<longrightarrow> \<not> fst (avail (ps ! j)) \<Longrightarrow>
         first_available_loop avail ps i = (k, ps[k := snd (avail (ps ! k))])"
proof (induction "k - i" arbitrary: i)
  case 0
  then have "i = k" by simp
  with 0 show ?case by (simp add: loop_step_accepted)
next
  case (Suc n)
  then have lt: "i < k" and il: "i < length ps" by simp_all
  with Suc(6) have no: "\<not> fst (avail (ps ! i))" by simp
  have "first_available_loop avail ps (i + 1) = (k, ps[k := snd (avail (ps ! k))])"
  proof (rule Suc(1))
    show "n = k - (i + 1)" using Suc(2) by simp
    show "i + 1 \<le> k" using lt by simp
    show "k < length ps" by (rule Suc(4))
    show "fst (avail (ps ! k))" by (rule Suc(5))
    show "\<forall>j. i + 1 \<le> j \<and> j < k \<longrightarrow> \<not> fst (avail (ps ! j))" using Suc(6) by simp
  qed
  with loop_step_rejected [of i ps avail, OF il no rej [OF no]] show ?case by simp
qed

lemma first_accepted_index:
  assumes "p \<in> set ps" "fst (avail p)"
  obtains k where "k < length ps" "fst (avail (ps ! k))"
    "\<forall>j. j < k \<longrightarrow> \<not> fst (avail (ps ! j))"
proof -
  let ?P = "\<lambda>k. k < length ps \<and> fst (avail (ps ! k))"
  from assms obtain j where "?P j" by (auto simp: in_set_conv_nth)
  then have "?P (LEAST k. ?P k)" by (rule LeastI)
  moreover have "\<forall>j. j < (LEAST k. ?P k) \<longrightarrow> \<not> fst (avail (ps ! j))"
  proof (intro allI impI)
    fix j assume j: "j < (LEAST k. ?P k)"
    then have "\<not> ?P j" by (rule not_less_Least)
    moreover from j \<open>?P (LEAST k. ?P k)\<close> have "j < length ps" by simp
    ultimately show "\<not> fst (avail (ps ! j))" by simp
  qed
  ultimately show ?thesis using that by blast
qed

lemma available_rejected_unchanged:
  "\<not> available ctx env params p \<Longrightarrow> left_by_filter ctx env params p = p"
  by (simp add: available_def left_by_filter_def plugin_available_rejected)

lemma no_filter_unchanged:
  "GetFilter env = None \<Longrightarrow>
   available ctx env params p \<and> left_by_filter ctx env params p = p"
  by (simp add: available_def left_by_filter_def plugin_available_no_filter)

section \<open>What \<open>FindEnabledPlugin\<close> and \<open>PluginsLoaded\<close> compute\<close>

text \<open>
  The branches of \<open>FindEnabledPlugin\<close> in terms of the candidates of the request. The
  platform test and the loop over \<open>kPepperPluginMimeTypes\<close> change nothing: every path of
  the empty branch returns false with the status \<open>kNotFound\<close>.
\<close>

lemma FindEnabledPlugin_empty:
  assumes "candidates env params = []"
  shows "FindEnabledPlugin ctx env (render_frame_id params) (url params)
           (top_origin_url params) (mime_type params) output
         = (False, output\<lparr>status := kNotFound\<rparr>)"
proof -
  obtain ps ms where arr:
    "GetPluginInfoArray env (url params) (mime_type params) True = (ps, ms)"
    by (cases "GetPluginInfoArray env (url params) (mime_type params) True")
  with assms have "ps = []" by (simp add: candidates_def)
  with arr show ?thesis by (simp add: FindEnabledPlugin_def Let_def)
qed

lemma FindEnabledPlugin_all_rejected:
  assumes ne: "candidates env params \<noteq> []"
    and all: "\<forall>q\<in>set (candidates env params). \<not> available ctx env params q"
  shows "FindEnabledPlugin ctx env (render_frame_id params) (url params)
           (top_origin_url params) (mime_type params) output
         = (False, output\<lparr>status := kDisabled,
                            plugin := Some (candidates env params ! 0),
                            actual_mime_type := matched_mime_types env params ! 0\<rparr>)"
proof -
  let ?avail = "plugin_available ctx (GetFilter env) (render_frame_id params) (url params)
                  (top_origin_url params)"
  obtain ps ms where arr:
    "GetPluginInfoArray env (url params) (mime_type params) True = (ps, ms)"
    by (cases "GetPluginInfoArray env (url params) (mime_type params) True")
  then have c: "candidates env params = ps" and m: "matched_mime_types env params = ms"
    by (simp_all add: candidates_def matched_mime_types_def)
  have "\<forall>p\<in>set ps. \<not> fst (?avail p)" using all by (simp add: c available_def)
  then have "first_available_loop ?avail ps 0 = (length ps, ps)"
    by (intro loop_all_rejected) (simp_all add: plugin_available_rejected)
  moreover have "ps \<noteq> []" using ne c by simp
  ultimately show ?thesis
    unfolding c m by (simp add: FindEnabledPlugin_def arr Let_def)
qed

lemma FindEnabledPlugin_accepted:
  assumes k: "k < length (candidates env params)"
    and acc: "available ctx env params (candidates env params ! k)"
    and before: "\<forall>j. j < k \<longrightarrow> \<not> available ctx env params (candidates env params ! j)"
  shows "FindEnabledPlugin ctx env (render_frame_id params) (url params)
           (top_origin_url params) (mime_type params) output
         = (True, output\<lparr>status := kAllowed,
                           plugin := Some (left_by_filter ctx env params
                                             (candidates env params ! k)),
                           actual_mime_type := matched_mime_types env params ! k\<rparr>)"
proof -
  let ?avail = "plugin_available ctx (GetFilter env) (render_frame_id params) (url params)
                  (top_origin_url params)"
  obtain ps ms where arr:
    "GetPluginInfoArray env (url params) (mime_type params) True = (ps, ms)"
    by (cases "GetPluginInfoArray env (url params) (mime_type params) True")
  then have c: "candidates env params = ps" and m: "matched_mime_types env params = ms"
    by (simp_all add: candidates_def matched_mime_types_def)
  have k': "k < length ps" using k by (simp add: c)
  have "first_available_loop ?avail ps 0 = (k, ps[k := snd (?avail (ps ! k))])"
  proof (rule loop_stops)
    show "\<not> fst (?avail p) \<Longrightarrow> snd (?avail p) = p" for p
      by (rule plugin_available_rejected)
    show "0 \<le> k" by simp
    show "k < length ps" by (rule k')
    show "fst (?avail (ps ! k))" using acc by (simp add: c available_def)
    show "\<forall>j. 0 \<le> j \<and> j < k \<longrightarrow> \<not> fst (?avail (ps ! j))"
      using before by (simp add: c available_def)
  qed
  moreover have "ps \<noteq> []" using k' by auto
  ultimately show ?thesis
    unfolding c m using k' by (simp add: FindEnabledPlugin_def arr Let_def left_by_filter_def)
qed

lemma FindEnabledPlugin_cases:
  fixes params :: GetPluginInfo_Params
  obtains
    (empty) "candidates env params = []"
  | (rejected) "candidates env params \<noteq> []"
      "\<forall>q\<in>set (candidates env params). \<not> available ctx env params q"
  | (accepted) k where "k < length (candidates env params)"
      "available ctx env params (candidates env params ! k)"
      "\<forall>j. j < k \<longrightarrow> \<not> available ctx env params (candidates env params ! j)"
proof (cases "candidates env params = []")
  case True
  then show ?thesis by (rule empty)
next
  case ne: False
  show ?thesis
  proof (cases "\<exists>q\<in>set (candidates env params). available ctx env params q")
    case True
    then obtain q where "q \<in> set (candidates env params)" "available ctx env params q"
      by blast
    then obtain k where "k < length (candidates env params)"
      "available ctx env params (candidates env params ! k)"
      "\<forall>j. j < k \<longrightarrow> \<not> available ctx env params (candidates env params ! j)"
      unfolding available_def by (rule first_accepted_index)
    then show ?thesis by (rule accepted)
  next
    case False
    then have "\<forall>q\<in>set (candidates env params). \<not> available ctx env params q" by blast
    with ne show ?thesis by (rule rejected)
  qed
qed

text \<open>
  The status the reply holds on entry is never read, so the choice made in
  \<open>Output_default\<close> does not matter.
\<close>

lemma FindEnabledPlugin_overwrites_status:
  "FindEnabledPlugin ctx env (render_frame_id (params :: GetPluginInfo_Params)) (url params)
     (top_origin_url params) (mime_type params) (output\<lparr>status := s\<rparr>)
   = FindEnabledPlugin ctx env (render_frame_id params) (url params)
       (top_origin_url params) (mime_type params) output"
proof (cases rule: FindEnabledPlugin_cases [where env = env and params = params and ctx = ctx])
  case empty
  then show ?thesis by (simp add: FindEnabledPlugin_empty)
next
  case rejected
  then show ?thesis by (simp add: FindEnabledPlugin_all_rejected)
next
  case (accepted k)
  then show ?thesis by (simp add: FindEnabledPlugin_accepted)
qed

text \<open>
  The three outcomes of \<open>PluginsLoaded\<close>: no candidate; candidates that the filter all
  rejects; a first available candidate, whose status \<open>DecidePluginStatus\<close> then decides
  starting from \<open>kAllowed\<close>, reading the plugin as the filter left it.
\<close>

lemma PluginsLoaded_empty:
  assumes "candidates env params = []"
  shows "PluginsLoaded ctx env params
         = \<lparr>status = kNotFound, plugin = None, actual_mime_type = []\<rparr>"
  by (simp add: PluginsLoaded_def FindEnabledPlugin_empty [OF assms] Output_default_def)

lemma PluginsLoaded_all_rejected:
  assumes "candidates env params \<noteq> []"
    and "\<forall>q\<in>set (candidates env params). \<not> available ctx env params q"
  shows "PluginsLoaded ctx env params
         = \<lparr>status = kDisabled, plugin = Some (candidates env params ! 0),
            actual_mime_type = matched_mime_types env params ! 0\<rparr>"
  by (simp add: PluginsLoaded_def FindEnabledPlugin_all_rejected [OF assms] Output_default_def)

lemma PluginsLoaded_accepted:
  assumes "k < length (candidates env params)"
    and "available ctx env params (candidates env params ! k)"
    and "\<forall>j. j < k \<longrightarrow> \<not> available ctx env params (candidates env params ! j)"
  shows "PluginsLoaded ctx env params
         = \<lparr>status = DecidePluginStatus ctx env params
                       (left_by_filter ctx env params (candidates env params ! k)) kAllowed,
            plugin = Some (left_by_filter ctx env params (candidates env params ! k)),
            actual_mime_type = matched_mime_types env params ! k\<rparr>"
  by (simp add: PluginsLoaded_def FindEnabledPlugin_accepted [OF assms] Output_default_def)

lemma PluginsLoaded_cases:
  obtains
    (empty) "candidates env params = []"
      "PluginsLoaded ctx env params
       = \<lparr>status = kNotFound, plugin = None, actual_mime_type = []\<rparr>"
  | (rejected) "candidates env params \<noteq> []"
      "\<forall>q\<in>set (candidates env params). \<not> available ctx env params q"
      "PluginsLoaded ctx env params
       = \<lparr>status = kDisabled, plugin = Some (candidates env params ! 0),
          actual_mime_type = matched_mime_types env params ! 0\<rparr>"
  | (accepted) k where "k < length (candidates env params)"
      "available ctx env params (candidates env params ! k)"
      "\<forall>j. j < k \<longrightarrow> \<not> available ctx env params (candidates env params ! j)"
      "PluginsLoaded ctx env params
       = \<lparr>status = DecidePluginStatus ctx env params
                     (left_by_filter ctx env params (candidates env params ! k)) kAllowed,
          plugin = Some (left_by_filter ctx env params (candidates env params ! k)),
          actual_mime_type = matched_mime_types env params ! k\<rparr>"
proof (cases rule: FindEnabledPlugin_cases [where env = env and params = params and ctx = ctx])
  case empty
  from this PluginsLoaded_empty [OF this] show ?thesis by (rule that(1))
next
  case rejected
  from this PluginsLoaded_all_rejected [OF this] show ?thesis by (rule that(2))
next
  case (accepted k)
  from this PluginsLoaded_accepted [OF this] show ?thesis by (rule that(3))
qed

lemma DecidePluginStatus_not_allowed:
  "DecidePluginStatus ctx env params p s = kAllowed \<Longrightarrow> s = kAllowed"
  by (simp add: DecidePluginStatus_def Let_def split: if_splits)

section \<open>The internal-plugin query\<close>

text \<open>Both loops are a search for the first entry with the requested MIME type.\<close>

lemma mime_types_loop_find:
  "mime_types_loop mts m = find (\<lambda>mt. WebPluginMimeType.mime_type mt = m) mts"
  by (induction mts) simp_all

lemma find_append_first:
  "find P (xs @ ys) = (case find P xs of Some x \<Rightarrow> Some x | None \<Rightarrow> find P ys)"
  by (induction xs) simp_all

lemma plugins_loop_first_exact_match: "plugins_loop ps m = first_exact_match ps m"
  by (induction ps)
    (simp_all add: first_exact_match_def mime_types_loop_find find_append_first
       split: option.splits)

section \<open>The concrete requests, evaluated\<close>

lemmas ex_defs = P1_def P2_def ex_array_def ex_ctx_def pdf_request_def video_request_def
  flash_request_def env_plain_def reject_all_def accept_legacy_only_def env_guest_def
  env_rejecting_def env_unstable_def env_guest_unstable_def env_rejecting_guest_unstable_def
  env_legacy_only_def env_legacy_only_guest_def replace_pdf_def P1_replaced_def
  env_replacing_def

lemmas run_defs = PluginsLoaded_def FindEnabledPlugin_def DecidePluginStatus_def
  Output_default_def plugin_available_def first_available_loop.simps Let_def
  candidates_def matched_mime_types_def available_def left_by_filter_def selection_def

lemma run_plain_pdf:
  "PluginsLoaded ex_ctx env_plain pdf_request
   = \<lparr>status = kAllowed, plugin = Some P1, actual_mime_type = ''application/pdf''\<rparr>"
  by (simp add: run_defs ex_defs)

lemma run_plain_flash:
  "PluginsLoaded ex_ctx env_plain flash_request
   = \<lparr>status = kNotFound, plugin = None, actual_mime_type = []\<rparr>"
  by (simp add: run_defs ex_defs)


lemma run_guest_video:
  "PluginsLoaded ex_ctx env_guest video_request
   = \<lparr>status = kNPAPINotSupported, plugin = Some P2, actual_mime_type = ''*''\<rparr>"
  by (simp add: run_defs ex_defs)

lemma run_unstable_video:
  "PluginsLoaded ex_ctx env_unstable video_request
   = \<lparr>status = kUnauthorized, plugin = Some P2, actual_mime_type = ''*''\<rparr>"
  by (simp add: run_defs ex_defs)

lemma run_guest_unstable_video:
  "PluginsLoaded ex_ctx env_guest_unstable video_request
   = \<lparr>status = kNPAPINotSupported, plugin = Some P2, actual_mime_type = ''*''\<rparr>"
  by (simp add: run_defs ex_defs)

lemma run_rejecting_guest_unstable_pdf:
  "PluginsLoaded ex_ctx env_rejecting_guest_unstable pdf_request
   = \<lparr>status = kDisabled, plugin = Some P1, actual_mime_type = ''application/pdf''\<rparr>"
  by (simp add: run_defs ex_defs)

lemma run_legacy_only_pdf:
  "PluginsLoaded ex_ctx env_legacy_only pdf_request
   = \<lparr>status = kAllowed, plugin = Some P2, actual_mime_type = ''*''\<rparr>"
  by (simp add: run_defs ex_defs)

lemma run_legacy_only_guest_pdf:
  "PluginsLoaded ex_ctx env_legacy_only_guest pdf_request
   = \<lparr>status = kNPAPINotSupported, plugin = Some P2, actual_mime_type = ''*''\<rparr>"
  by (simp add: run_defs ex_defs)

lemma run_replacing_pdf:
  "PluginsLoaded ex_ctx env_replacing pdf_request
   = \<lparr>status = kAllowed, plugin = Some P1_replaced,
      actual_mime_type = ''application/pdf''\<rparr>"
  by (simp add: run_defs ex_defs)

section \<open>Properties of the resolution\<close>

text \<open>
  Claim C1, as amended. When the plugin in the reply is of the NPAPI type and the
  requesting process is a guest, the status is \<open>kNPAPINotSupported\<close> if some candidate
  passed the availability filter, whatever the instability tracker answers, and
  \<open>kDisabled\<close> if the filter rejected every candidate. It is never \<open>kUnauthorized\<close>.
\<close>

theorem npapi_guest_status:
  assumes "plugin (PluginsLoaded ctx env params) = Some p"
    and "type p = PLUGIN_TYPE_NPAPI"
    and "IsGuest env (render_process_id ctx)"
  shows "status (PluginsLoaded ctx env params)
         = (if \<exists>q\<in>set (candidates env params). available ctx env params q
            then kNPAPINotSupported else kDisabled)"
proof (cases rule: PluginsLoaded_cases [where env = env and params = params and ctx = ctx])
  case empty
  with assms(1) show ?thesis by simp
next
  case rejected
  then show ?thesis by simp
next
  case (accepted k)
  with assms(1) have p: "p = left_by_filter ctx env params (candidates env params ! k)"
    by simp
  have "\<exists>q\<in>set (candidates env params). available ctx env params q"
    using accepted(1,2) nth_mem by blast
  moreover have "DecidePluginStatus ctx env params p kAllowed = kNPAPINotSupported"
    using assms(2,3) by (simp add: DecidePluginStatus_def)
  ultimately show ?thesis using accepted(4) p by simp
qed

text \<open>
  The filter accepts only the NPAPI plugin \<open>P2\<close>, second in the list, and process 7 is a
  guest.
\<close>

theorem npapi_guest_status_witness:
  "plugin (PluginsLoaded ex_ctx env_legacy_only_guest pdf_request) = Some P2
   \<and> type P2 = PLUGIN_TYPE_NPAPI
   \<and> IsGuest env_legacy_only_guest (render_process_id ex_ctx)
   \<and> status (PluginsLoaded ex_ctx env_legacy_only_guest pdf_request) = kNPAPINotSupported"
proof -
  have pl: "plugin (PluginsLoaded ex_ctx env_legacy_only_guest pdf_request) = Some P2"
    by (simp add: run_legacy_only_guest_pdf)
  have ty: "type P2 = PLUGIN_TYPE_NPAPI" by (simp add: P2_def)
  have gu: "IsGuest env_legacy_only_guest (render_process_id ex_ctx)" by (simp add: ex_defs)
  have "available ex_ctx env_legacy_only_guest pdf_request P2"
    and "P2 \<in> set (candidates env_legacy_only_guest pdf_request)"
    by (simp_all add: run_defs ex_defs)
  then have "\<exists>q\<in>set (candidates env_legacy_only_guest pdf_request).
               available ex_ctx env_legacy_only_guest pdf_request q" by blast
  with npapi_guest_status [OF pl ty gu] pl ty gu show ?thesis by simp
qed

text \<open>
  Claim C1 as stated fails: with no filter, an NPAPI plugin chosen for a guest process is
  answered with \<open>kNPAPINotSupported\<close>, not \<open>kUnauthorized\<close>.
\<close>

theorem npapi_guest_counterexample:
  "plugin (PluginsLoaded ex_ctx env_guest video_request) = Some P2
   \<and> type P2 = PLUGIN_TYPE_NPAPI
   \<and> IsGuest env_guest (render_process_id ex_ctx)
   \<and> status (PluginsLoaded ex_ctx env_guest video_request) \<noteq> kUnauthorized"
  by (simp add: run_guest_video) (simp add: ex_defs)

text \<open>
  Claim C2, as amended. In every reply: the status \<open>kAllowed\<close> comes with a plugin, and
  that plugin passed the availability filter: the availability check accepted a candidate
  and the reply holds the plugin as the check left it; the status \<open>kNotFound\<close> comes with
  no plugin and an empty actual MIME type; the status \<open>kNPAPINotSupported\<close> comes with a
  plugin that passed the availability filter, is of the NPAPI type and was requested by a
  guest process.
\<close>

theorem status_plugin_invariant:
  "(status (PluginsLoaded ctx env params) = kAllowed \<longrightarrow>
      (\<exists>p q. plugin (PluginsLoaded ctx env params) = Some p
             \<and> q \<in> set (candidates env params) \<and> available ctx env params q
             \<and> p = left_by_filter ctx env params q))
   \<and> (status (PluginsLoaded ctx env params) = kNotFound \<longrightarrow>
        plugin (PluginsLoaded ctx env params) = None
        \<and> actual_mime_type (PluginsLoaded ctx env params) = [])
   \<and> (status (PluginsLoaded ctx env params) = kNPAPINotSupported \<longrightarrow>
        (\<exists>p q. plugin (PluginsLoaded ctx env params) = Some p
               \<and> q \<in> set (candidates env params) \<and> available ctx env params q
               \<and> p = left_by_filter ctx env params q
               \<and> type p = PLUGIN_TYPE_NPAPI \<and> IsGuest env (render_process_id ctx)))"
proof (cases rule: PluginsLoaded_cases [where env = env and params = params and ctx = ctx])
  case empty
  then show ?thesis by simp
next
  case rejected
  then show ?thesis by simp
next
  case (accepted k)
  let ?q = "candidates env params ! k"
  let ?p = "left_by_filter ctx env params ?q"
  have mem: "?q \<in> set (candidates env params)" using accepted(1) by simp
  have d: "DecidePluginStatus ctx env params ?p kAllowed \<noteq> kNotFound"
    by (simp add: DecidePluginStatus_def Let_def)
  have n: "DecidePluginStatus ctx env params ?p kAllowed = kNPAPINotSupported \<Longrightarrow>
           type ?p = PLUGIN_TYPE_NPAPI \<and> IsGuest env (render_process_id ctx)"
    by (simp add: DecidePluginStatus_def Let_def split: if_splits)
  have pres: "\<exists>p q. plugin (PluginsLoaded ctx env params) = Some p
               \<and> q \<in> set (candidates env params) \<and> available ctx env params q
               \<and> p = left_by_filter ctx env params q"
    using accepted(2,4) mem by auto
  have np: "\<exists>p q. plugin (PluginsLoaded ctx env params) = Some p
               \<and> q \<in> set (candidates env params) \<and> available ctx env params q
               \<and> p = left_by_filter ctx env params q
               \<and> type p = PLUGIN_TYPE_NPAPI \<and> IsGuest env (render_process_id ctx)"
    if "status (PluginsLoaded ctx env params) = kNPAPINotSupported"
  proof -
    from that accepted(4) have "DecidePluginStatus ctx env params ?p kAllowed = kNPAPINotSupported"
      by simp
    from n [OF this] accepted(2,4) mem show ?thesis by auto
  qed
  have nf: "status (PluginsLoaded ctx env params) \<noteq> kNotFound"
    using accepted(4) d by simp
  from pres np nf show ?thesis by blast
qed

text \<open>
  One request for each of the three statuses, and a request whose plugin the filter
  accepts and changes.
\<close>

theorem status_plugin_invariant_witness:
  "status (PluginsLoaded ex_ctx env_plain pdf_request) = kAllowed
   \<and> plugin (PluginsLoaded ex_ctx env_plain pdf_request) = Some P1
   \<and> available ex_ctx env_plain pdf_request P1
   \<and> status (PluginsLoaded ex_ctx env_plain flash_request) = kNotFound
   \<and> plugin (PluginsLoaded ex_ctx env_plain flash_request) = None
   \<and> actual_mime_type (PluginsLoaded ex_ctx env_plain flash_request) = []
   \<and> status (PluginsLoaded ex_ctx env_guest video_request) = kNPAPINotSupported
   \<and> plugin (PluginsLoaded ex_ctx env_guest video_request) = Some P2
   \<and> type P2 = PLUGIN_TYPE_NPAPI
   \<and> status (PluginsLoaded ex_ctx env_replacing pdf_request) = kAllowed
   \<and> plugin (PluginsLoaded ex_ctx env_replacing pdf_request) = Some P1_replaced
   \<and> available ex_ctx env_replacing pdf_request P1
   \<and> left_by_filter ex_ctx env_replacing pdf_request P1 = P1_replaced"
proof -
  have a: "status (PluginsLoaded ex_ctx env_plain pdf_request) = kAllowed"
    by (simp add: run_plain_pdf)
  have b: "status (PluginsLoaded ex_ctx env_plain flash_request) = kNotFound"
    by (simp add: run_plain_flash)
  have c: "status (PluginsLoaded ex_ctx env_guest video_request) = kNPAPINotSupported"
    by (simp add: run_guest_video)
  have d: "status (PluginsLoaded ex_ctx env_replacing pdf_request) = kAllowed"
    by (simp add: run_replacing_pdf)
  from status_plugin_invariant [of ex_ctx env_plain pdf_request] a
  have 1: "\<exists>p. plugin (PluginsLoaded ex_ctx env_plain pdf_request) = Some p" by blast
  from status_plugin_invariant [of ex_ctx env_plain flash_request] b
  have 2: "plugin (PluginsLoaded ex_ctx env_plain flash_request) = None
           \<and> actual_mime_type (PluginsLoaded ex_ctx env_plain flash_request) = []" by blast
  from status_plugin_invariant [of ex_ctx env_guest video_request] c
  have 3: "\<exists>p. plugin (PluginsLoaded ex_ctx env_guest video_request) = Some p
               \<and> type p = PLUGIN_TYPE_NPAPI" by blast
  from status_plugin_invariant [of ex_ctx env_replacing pdf_request] d
  have 4: "\<exists>p. plugin (PluginsLoaded ex_ctx env_replacing pdf_request) = Some p" by blast
  have av: "available ex_ctx env_plain pdf_request P1"
    "available ex_ctx env_replacing pdf_request P1"
    "left_by_filter ex_ctx env_replacing pdf_request P1 = P1_replaced"
    by (simp_all add: available_def left_by_filter_def plugin_available_def ex_defs)
  from 1 2 3 4 a b c d av show ?thesis
    by (simp add: run_plain_pdf run_guest_video run_replacing_pdf)
qed

text \<open>
  Claim C2 as stated fails for \<open>kNPAPINotSupported\<close>: the reply to a guest process whose
  request matches the NPAPI plugin \<open>P2\<close> has that status and carries the plugin and its
  MIME type.
\<close>

theorem status_plugin_counterexample:
  "status (PluginsLoaded ex_ctx env_guest_unstable video_request) = kNPAPINotSupported
   \<and> plugin (PluginsLoaded ex_ctx env_guest_unstable video_request) \<noteq> None
   \<and> actual_mime_type (PluginsLoaded ex_ctx env_guest_unstable video_request) \<noteq> []"
  by (simp add: run_guest_unstable_video)

text \<open>
  Claim C3, as amended. When the candidate list is empty the reply has no plugin, an
  empty actual MIME type and the status \<open>kNotFound\<close>, on every platform, with or without
  NPAPI support and for every requested MIME type, those of \<open>kPepperPluginMimeTypes\<close>
  included; \<open>kNPAPINotSupported\<close> is never the status of such a request.
\<close>

theorem no_candidate_not_found:
  assumes "candidates env params = []"
  shows "PluginsLoaded ctx env params
         = \<lparr>status = kNotFound, plugin = None, actual_mime_type = []\<rparr>"
  using assms by (rule PluginsLoaded_empty)

text \<open>A request for a type nothing is registered for.\<close>

theorem no_candidate_not_found_witness:
  "candidates env_guest flash_request = []
   \<and> PluginsLoaded ex_ctx env_guest flash_request
     = \<lparr>status = kNotFound, plugin = None, actual_mime_type = []\<rparr>"
proof -
  have e: "candidates env_guest flash_request = []"
    by (simp add: candidates_def ex_defs)
  from no_candidate_not_found [OF e] e show ?thesis by simp
qed

text \<open>
  Claim C3 as stated fails: on a Windows or macOS build without NPAPI support, a request
  for \<open>application/x-shockwave-flash\<close>, which is in \<open>kPepperPluginMimeTypes\<close>, with no
  candidate is answered with \<open>kNotFound\<close>.
\<close>

theorem no_candidate_counterexample:
  "candidates env_plain flash_request = []
   \<and> OS_WIN_or_OS_MACOSX env_plain \<and> \<not> NPAPIPluginsSupported env_plain
   \<and> mime_type flash_request \<in> set kPepperPluginMimeTypes
   \<and> status (PluginsLoaded ex_ctx env_plain flash_request) \<noteq> kNPAPINotSupported"
  by (simp add: run_plain_flash) (simp add: candidates_def kPepperPluginMimeTypes_def ex_defs)

text \<open>
  Claim C4. When there is at least one candidate and the availability filter rejects
  every candidate, the reply carries the first candidate and the status \<open>kDisabled\<close>.
\<close>

theorem all_rejected_first_disabled:
  assumes "candidates env params \<noteq> []"
    and "\<forall>q\<in>set (candidates env params). \<not> available ctx env params q"
  shows "plugin (PluginsLoaded ctx env params) = Some (hd (candidates env params))
       \<and> status (PluginsLoaded ctx env params) = kDisabled"
  using assms by (simp add: PluginsLoaded_all_rejected hd_conv_nth)

text \<open>A filter that rejects both candidates of the PDF request.\<close>

theorem all_rejected_first_disabled_witness:
  "candidates env_rejecting pdf_request = [P1, P2]
   \<and> \<not> available ex_ctx env_rejecting pdf_request P1
   \<and> \<not> available ex_ctx env_rejecting pdf_request P2
   \<and> plugin (PluginsLoaded ex_ctx env_rejecting pdf_request) = Some P1
   \<and> status (PluginsLoaded ex_ctx env_rejecting pdf_request) = kDisabled"
proof -
  have c: "candidates env_rejecting pdf_request = [P1, P2]"
    by (simp add: candidates_def ex_defs)
  have r: "\<not> available ex_ctx env_rejecting pdf_request P1"
          "\<not> available ex_ctx env_rejecting pdf_request P2"
    by (simp_all add: available_def plugin_available_def ex_defs)
  have ne: "candidates env_rejecting pdf_request \<noteq> []" by (simp add: c)
  have all: "\<forall>q\<in>set (candidates env_rejecting pdf_request).
               \<not> available ex_ctx env_rejecting pdf_request q"
    using r by (simp add: c)
  from all_rejected_first_disabled [OF ne all] c r show ?thesis by simp
qed

text \<open>
  Claim C5, as amended. When the plugin in the reply is flagged unstable, the status is
  \<open>kUnauthorized\<close> provided some candidate passed the availability filter and the plugin
  is not an NPAPI plugin requested by a guest process; it is \<open>kNPAPINotSupported\<close> for an
  available NPAPI plugin requested by a guest, and \<open>kDisabled\<close> when the filter rejected
  every candidate.
\<close>

theorem unstable_status:
  assumes "plugin (PluginsLoaded ctx env params) = Some p"
    and "IsPluginUnstable env (path p)"
  shows "status (PluginsLoaded ctx env params)
         = (if \<not> (\<exists>q\<in>set (candidates env params). available ctx env params q)
            then kDisabled
            else if type p = PLUGIN_TYPE_NPAPI \<and> IsGuest env (render_process_id ctx)
            then kNPAPINotSupported
            else kUnauthorized)"
proof (cases rule: PluginsLoaded_cases [where env = env and params = params and ctx = ctx])
  case empty
  with assms(1) show ?thesis by simp
next
  case rejected
  then show ?thesis by simp
next
  case (accepted k)
  with assms(1) have p: "p = left_by_filter ctx env params (candidates env params ! k)"
    by simp
  have ex: "\<exists>q\<in>set (candidates env params). available ctx env params q"
    using accepted(1,2) nth_mem by blast
  have "DecidePluginStatus ctx env params p kAllowed
        = (if type p = PLUGIN_TYPE_NPAPI \<and> IsGuest env (render_process_id ctx)
           then kNPAPINotSupported else kUnauthorized)"
    using assms(2) by (simp add: DecidePluginStatus_def)
  with ex accepted(4) p show ?thesis by simp
qed

text \<open>Every path is unstable, there is no filter and process 7 is not a guest.\<close>

theorem unstable_status_witness:
  "plugin (PluginsLoaded ex_ctx env_unstable video_request) = Some P2
   \<and> IsPluginUnstable env_unstable (path P2)
   \<and> available ex_ctx env_unstable video_request P2
   \<and> \<not> IsGuest env_unstable (render_process_id ex_ctx)
   \<and> status (PluginsLoaded ex_ctx env_unstable video_request) = kUnauthorized"
proof -
  have pl: "plugin (PluginsLoaded ex_ctx env_unstable video_request) = Some P2"
    by (simp add: run_unstable_video)
  have un: "IsPluginUnstable env_unstable (path P2)" by (simp add: ex_defs)
  have av: "available ex_ctx env_unstable video_request P2"
    and mem: "P2 \<in> set (candidates env_unstable video_request)"
    and ng: "\<not> IsGuest env_unstable (render_process_id ex_ctx)"
    by (simp_all add: run_defs ex_defs)
  from av mem have "\<exists>q\<in>set (candidates env_unstable video_request).
                      available ex_ctx env_unstable video_request q" by blast
  with unstable_status [OF pl un] pl un av ng show ?thesis by simp
qed

text \<open>
  Claim C5 as stated fails at two requests whose chosen plugin is flagged unstable: when
  the filter rejects every candidate the status is \<open>kDisabled\<close>, and when an NPAPI plugin
  is chosen for a guest process the status is \<open>kNPAPINotSupported\<close>.
\<close>

theorem unstable_counterexample:
  "plugin (PluginsLoaded ex_ctx env_rejecting_guest_unstable pdf_request) = Some P1
   \<and> IsPluginUnstable env_rejecting_guest_unstable (path P1)
   \<and> status (PluginsLoaded ex_ctx env_rejecting_guest_unstable pdf_request) \<noteq> kUnauthorized
   \<and> plugin (PluginsLoaded ex_ctx env_guest_unstable video_request) = Some P2
   \<and> IsPluginUnstable env_guest_unstable (path P2)
   \<and> status (PluginsLoaded ex_ctx env_guest_unstable video_request) \<noteq> kUnauthorized"
  by (simp add: run_rejecting_guest_unstable_pdf run_guest_unstable_video) (simp add: ex_defs)




text \<open>
  Claim C7, as amended. When there is at least one candidate, the filter is absent or
  accepts the first candidate, the requesting process is not a guest and the plugin
  returned is not flagged unstable, the reply carries the status \<open>kAllowed\<close> and the first
  candidate as the availability filter left it: the first candidate itself when the
  filter is absent or accepted it without changing it.
\<close>

theorem first_accepted_allowed:
  assumes "candidates env params \<noteq> []"
    and "GetFilter env = None \<or> available ctx env params (hd (candidates env params))"
    and "\<not> IsGuest env (render_process_id ctx)"
    and "\<not> IsPluginUnstable env
             (path (left_by_filter ctx env params (hd (candidates env params))))"
  shows "plugin (PluginsLoaded ctx env params)
           = Some (left_by_filter ctx env params (hd (candidates env params)))
       \<and> status (PluginsLoaded ctx env params) = kAllowed
       \<and> (GetFilter env = None \<longrightarrow>
            plugin (PluginsLoaded ctx env params) = Some (hd (candidates env params)))"
proof -
  let ?cs = "candidates env params"
  let ?p = "left_by_filter ctx env params (?cs ! 0)"
  have hd: "hd ?cs = ?cs ! 0" using assms(1) by (simp add: hd_conv_nth)
  have av: "available ctx env params (?cs ! 0)"
    using assms(2) no_filter_unchanged [of env ctx params "?cs ! 0"] by (auto simp: hd)
  have pl: "PluginsLoaded ctx env params
        = \<lparr>status = DecidePluginStatus ctx env params ?p kAllowed,
           plugin = Some ?p,
           actual_mime_type = matched_mime_types env params ! 0\<rparr>"
    using assms(1) av by (intro PluginsLoaded_accepted) simp_all
  have "DecidePluginStatus ctx env params ?p kAllowed = kAllowed"
    using assms(3,4) by (simp add: DecidePluginStatus_def hd)
  with pl no_filter_unchanged [of env ctx params "?cs ! 0"] show ?thesis
    by (simp add: hd)
qed

text \<open>
  Without a filter; with a filter that accepts the only candidate and leaves it as it
  is; and with a filter that accepts the first candidate and replaces its path.
\<close>

theorem first_accepted_allowed_witness:
  "candidates env_plain pdf_request = [P1, P2]
   \<and> GetFilter env_plain = None
   \<and> plugin (PluginsLoaded ex_ctx env_plain pdf_request) = Some P1
   \<and> status (PluginsLoaded ex_ctx env_plain pdf_request) = kAllowed
   \<and> candidates env_legacy_only video_request = [P2]
   \<and> GetFilter env_legacy_only = Some accept_legacy_only
   \<and> available ex_ctx env_legacy_only video_request P2
   \<and> plugin (PluginsLoaded ex_ctx env_legacy_only video_request) = Some P2
   \<and> status (PluginsLoaded ex_ctx env_legacy_only video_request) = kAllowed
   \<and> candidates env_replacing pdf_request = [P1, P2]
   \<and> available ex_ctx env_replacing pdf_request P1
   \<and> plugin (PluginsLoaded ex_ctx env_replacing pdf_request) = Some P1_replaced
   \<and> status (PluginsLoaded ex_ctx env_replacing pdf_request) = kAllowed"
proof -
  have c1: "candidates env_plain pdf_request = [P1, P2]"
    and f1: "GetFilter env_plain = None"
    and g1: "\<not> IsGuest env_plain (render_process_id ex_ctx)"
    and l1: "left_by_filter ex_ctx env_plain pdf_request P1 = P1"
    and u1: "\<not> IsPluginUnstable env_plain (path P1)"
    by (simp_all add: candidates_def left_by_filter_def plugin_available_def ex_defs)
  have c2: "candidates env_legacy_only video_request = [P2]"
    and f2: "GetFilter env_legacy_only = Some accept_legacy_only"
    and a2: "available ex_ctx env_legacy_only video_request P2"
    and l2: "left_by_filter ex_ctx env_legacy_only video_request P2 = P2"
    and g2: "\<not> IsGuest env_legacy_only (render_process_id ex_ctx)"
    and u2: "\<not> IsPluginUnstable env_legacy_only (path P2)"
    by (simp_all add: candidates_def available_def left_by_filter_def plugin_available_def
          ex_defs)
  have c3: "candidates env_replacing pdf_request = [P1, P2]"
    and a3: "available ex_ctx env_replacing pdf_request P1"
    and l3: "left_by_filter ex_ctx env_replacing pdf_request P1 = P1_replaced"
    and g3: "\<not> IsGuest env_replacing (render_process_id ex_ctx)"
    and u3: "\<not> IsPluginUnstable env_replacing (path P1_replaced)"
    by (simp_all add: candidates_def available_def left_by_filter_def plugin_available_def
          ex_defs)
  have r1: "plugin (PluginsLoaded ex_ctx env_plain pdf_request) = Some P1
            \<and> status (PluginsLoaded ex_ctx env_plain pdf_request) = kAllowed"
    using first_accepted_allowed [of env_plain pdf_request ex_ctx] f1 g1 u1
    by (simp add: c1 l1)
  have r2: "plugin (PluginsLoaded ex_ctx env_legacy_only video_request) = Some P2
            \<and> status (PluginsLoaded ex_ctx env_legacy_only video_request) = kAllowed"
    using first_accepted_allowed [of env_legacy_only video_request ex_ctx] a2 g2 u2
    by (simp add: c2 l2)
  have r3: "plugin (PluginsLoaded ex_ctx env_replacing pdf_request) = Some P1_replaced
            \<and> status (PluginsLoaded ex_ctx env_replacing pdf_request) = kAllowed"
    using first_accepted_allowed [of env_replacing pdf_request ex_ctx] a3 g3 u3
    by (simp add: c3 l3)
  from r1 r2 r3 c1 f1 c2 f2 a2 c3 a3 show ?thesis by simp
qed

text \<open>
  Claim C7 as stated fails: the filter accepts the first candidate \<open>P1\<close> and changes its
  path through the pointer it is given; no downgrade applies, the status is \<open>kAllowed\<close>,
  and the plugin in the reply is the changed plugin, not the first candidate.
\<close>

theorem first_accepted_counterexample:
  "candidates env_replacing pdf_request = [P1, P2]
   \<and> available ex_ctx env_replacing pdf_request P1
   \<and> \<not> IsGuest env_replacing (render_process_id ex_ctx)
   \<and> \<not> IsPluginUnstable env_replacing (path P1)
   \<and> \<not> IsPluginUnstable env_replacing (path P1_replaced)
   \<and> status (PluginsLoaded ex_ctx env_replacing pdf_request) = kAllowed
   \<and> plugin (PluginsLoaded ex_ctx env_replacing pdf_request) = Some P1_replaced
   \<and> plugin (PluginsLoaded ex_ctx env_replacing pdf_request) \<noteq> Some (hd [P1, P2])"
  by (simp add: run_replacing_pdf)
     (simp add: candidates_def available_def plugin_available_def ex_defs)

text \<open>
  Claim C8. The downgrades run only when the status after the selection is \<open>kAllowed\<close>:
  with any other status the reply is the selection unchanged. Nothing restores
  \<open>kAllowed\<close>: a reply is allowed only if the selection was, and \<open>DecidePluginStatus\<close>
  returns \<open>kAllowed\<close> only when entered with it. In particular a selection with the
  status \<open>kDisabled\<close> is answered with \<open>kDisabled\<close>, whatever the instability tracker and the
  guest registry say.
\<close>

theorem downgrades_only_when_allowed:
  "(status (selection ctx env params) \<noteq> kAllowed \<longrightarrow>
      PluginsLoaded ctx env params = selection ctx env params)
   \<and> (status (PluginsLoaded ctx env params) = kAllowed \<longrightarrow>
        status (selection ctx env params) = kAllowed)
   \<and> (DecidePluginStatus ctx env params p s = kAllowed \<longrightarrow> s = kAllowed)
   \<and> (status (selection ctx env params) = kDisabled \<longrightarrow>
        status (PluginsLoaded ctx env params) = kDisabled)"
proof -
  let ?r = "FindEnabledPlugin ctx env (render_frame_id params) (url params)
              (top_origin_url params) (mime_type params) Output_default"
  have sel: "selection ctx env params = snd ?r" by (simp add: selection_def)
  have iff: "fst ?r \<longleftrightarrow> status (snd ?r) = kAllowed"
  proof (cases rule: FindEnabledPlugin_cases [where env = env and params = params and ctx = ctx])
    case empty
    then show ?thesis by (simp add: FindEnabledPlugin_empty)
  next
    case rejected
    then show ?thesis by (simp add: FindEnabledPlugin_all_rejected)
  next
    case (accepted k)
    then show ?thesis by (simp add: FindEnabledPlugin_accepted)
  qed
  have a: "PluginsLoaded ctx env params = snd ?r" if "status (snd ?r) \<noteq> kAllowed"
  proof -
    obtain found out where r: "?r = (found, out)" by (cases ?r)
    with iff that have "\<not> found" by simp
    with r show ?thesis by (simp add: PluginsLoaded_def)
  qed
  have b: "status (snd ?r) = kAllowed" if al: "status (PluginsLoaded ctx env params) = kAllowed"
  proof (rule ccontr)
    assume n: "status (snd ?r) \<noteq> kAllowed"
    from a [OF n] al have "status (snd ?r) = kAllowed" by (rule subst)
    with n show False by (rule notE)
  qed
  have c: "status (PluginsLoaded ctx env params) = kDisabled" if d: "status (snd ?r) = kDisabled"
  proof -
    from d have "status (snd ?r) \<noteq> kAllowed" by simp
    from a [OF this] d show ?thesis by (rule ssubst)
  qed
  from a b c DecidePluginStatus_not_allowed [of ctx env params p s]
  show ?thesis unfolding sel by blast
qed

text \<open>
  The filter rejects both candidates, every path is unstable and the requester is a
  guest: the reply is the selection, with the status \<open>kDisabled\<close>. The plain PDF request
  is allowed before and after.
\<close>

theorem downgrades_only_when_allowed_witness:
  "status (selection ex_ctx env_rejecting_guest_unstable pdf_request) = kDisabled
   \<and> IsGuest env_rejecting_guest_unstable (render_process_id ex_ctx)
   \<and> IsPluginUnstable env_rejecting_guest_unstable (path P1)
   \<and> PluginsLoaded ex_ctx env_rejecting_guest_unstable pdf_request
     = selection ex_ctx env_rejecting_guest_unstable pdf_request
   \<and> status (PluginsLoaded ex_ctx env_rejecting_guest_unstable pdf_request) = kDisabled
   \<and> status (PluginsLoaded ex_ctx env_plain pdf_request) = kAllowed
   \<and> status (selection ex_ctx env_plain pdf_request) = kAllowed
   \<and> DecidePluginStatus ex_ctx env_plain pdf_request P1 kAllowed = kAllowed"
proof -
  have s: "status (selection ex_ctx env_rejecting_guest_unstable pdf_request) = kDisabled"
    by (simp add: run_defs ex_defs)
  have gu: "IsGuest env_rejecting_guest_unstable (render_process_id ex_ctx)"
    and un: "IsPluginUnstable env_rejecting_guest_unstable (path P1)"
    by (simp_all add: ex_defs)
  have al: "status (PluginsLoaded ex_ctx env_plain pdf_request) = kAllowed"
    by (simp add: run_plain_pdf)
  have d: "DecidePluginStatus ex_ctx env_plain pdf_request P1 kAllowed = kAllowed"
    by (simp add: DecidePluginStatus_def ex_defs)
  from downgrades_only_when_allowed
         [of ex_ctx env_rejecting_guest_unstable pdf_request P1 kAllowed] s
  have 1: "PluginsLoaded ex_ctx env_rejecting_guest_unstable pdf_request
           = selection ex_ctx env_rejecting_guest_unstable pdf_request"
    and 2: "status (PluginsLoaded ex_ctx env_rejecting_guest_unstable pdf_request) = kDisabled"
    by simp_all
  from downgrades_only_when_allowed [of ex_ctx env_plain pdf_request P1 kAllowed] al
  have 3: "status (selection ex_ctx env_plain pdf_request) = kAllowed" by blast
  from s gu un 1 2 al 3 d show ?thesis by simp
qed

text \<open>
  Claim C9. The reply to the internal-plugin query depends only on the internal plugins
  and the requested string: it is true with the additional parameter names and values of
  the first entry whose MIME type equals that string, in plugin order and then in the
  order of the plugin's MIME types, and false with two empty sequences when there is no
  such entry. The function itself writes only \<open>*is_available\<close> in that case, leaving the
  two vectors as it received them.
\<close>

theorem internal_plugin_query:
  "IsInternalPluginAvailableForMimeType_reply env m
     = (case first_exact_match (GetInternalPlugins env) m of
          Some mt \<Rightarrow> (True, additional_param_names mt, additional_param_values mt)
        | None \<Rightarrow> (False, [], []))
   \<and> OnIsInternalPluginAvailableForMimeType env m (is_available, names, vals)
     = (case first_exact_match (GetInternalPlugins env) m of
          Some mt \<Rightarrow> (True, additional_param_names mt, additional_param_values mt)
        | None \<Rightarrow> (False, names, vals))"
  by (simp add: IsInternalPluginAvailableForMimeType_reply_def
      OnIsInternalPluginAvailableForMimeType_def plugins_loop_first_exact_match)

text \<open>The comparison is exact: a different capitalisation finds nothing.\<close>

theorem internal_plugin_query_witness:
  "IsInternalPluginAvailableForMimeType_reply env_plain ''application/pdf''
     = (True, [''mode''], [''embedded''])
   \<and> IsInternalPluginAvailableForMimeType_reply env_plain ''Application/PDF''
     = (False, [], [])"
  using internal_plugin_query [of env_plain "''application/pdf''"]
        internal_plugin_query [of env_plain "''Application/PDF''"]
  by (simp add: first_exact_match_def ex_defs)

text \<open>
  Claim C10, as amended. When there is at least one candidate and the two vectors of
  \<open>GetPluginInfoArray\<close> have the same length, the plugin and the actual MIME type of the
  reply come from one and the same index of the two vectors, whether a candidate was
  available or the first one was taken because none was: the actual MIME type is the
  entry of the MIME type vector at that index, and the plugin is the entry of the plugin
  vector at that index as the availability filter left it, which is the entry itself
  when the filter is absent or rejected it.
\<close>

theorem plugin_and_mime_type_same_index:
  assumes "candidates env params \<noteq> []"
    and "length (matched_mime_types env params) = length (candidates env params)"
  shows "\<exists>i. i < length (candidates env params)
           \<and> i < length (matched_mime_types env params)
           \<and> plugin (PluginsLoaded ctx env params)
               = Some (left_by_filter ctx env params (candidates env params ! i))
           \<and> actual_mime_type (PluginsLoaded ctx env params)
               = matched_mime_types env params ! i
           \<and> (GetFilter env = None \<or> \<not> available ctx env params (candidates env params ! i)
                \<longrightarrow> plugin (PluginsLoaded ctx env params)
                      = Some (candidates env params ! i))"
proof -
  have same: "left_by_filter ctx env params q = q"
    if "GetFilter env = None \<or> \<not> available ctx env params q" for q
    using that no_filter_unchanged [of env ctx params q]
      available_rejected_unchanged [of ctx env params q] by blast
  show ?thesis
  proof (cases rule: PluginsLoaded_cases [where env = env and params = params and ctx = ctx])
    case empty
    with assms(1) show ?thesis by simp
  next
    case rejected
    from rejected(1) have "candidates env params ! 0 \<in> set (candidates env params)" by simp
    with rejected(2) have "\<not> available ctx env params (candidates env params ! 0)" by blast
    then have "left_by_filter ctx env params (candidates env params ! 0)
               = candidates env params ! 0" by (rule available_rejected_unchanged)
    with rejected assms show ?thesis by (intro exI [of _ 0]) simp
  next
    case (accepted k)
    with assms same show ?thesis by (intro exI [of _ k]) auto
  qed
qed

text \<open>
  The filter accepts only the second candidate and leaves it as it is: both fields come
  from index 1.
\<close>

theorem plugin_and_mime_type_same_index_witness:
  "candidates env_legacy_only pdf_request = [P1, P2]
   \<and> matched_mime_types env_legacy_only pdf_request = [''application/pdf'', ''*'']
   \<and> plugin (PluginsLoaded ex_ctx env_legacy_only pdf_request) = Some ([P1, P2] ! 1)
   \<and> actual_mime_type (PluginsLoaded ex_ctx env_legacy_only pdf_request)
       = [''application/pdf'', ''*''] ! 1"
proof -
  have c: "candidates env_legacy_only pdf_request = [P1, P2]"
    and m: "matched_mime_types env_legacy_only pdf_request = [''application/pdf'', ''*'']"
    by (simp_all add: candidates_def matched_mime_types_def ex_defs)
  have ne: "candidates env_legacy_only pdf_request \<noteq> []" by (simp add: c)
  have len: "length (matched_mime_types env_legacy_only pdf_request)
             = length (candidates env_legacy_only pdf_request)" by (simp add: c m)
  have l1: "left_by_filter ex_ctx env_legacy_only pdf_request P1 = P1"
    and l2: "left_by_filter ex_ctx env_legacy_only pdf_request P2 = P2"
    by (simp_all add: left_by_filter_def plugin_available_def ex_defs)
  from plugin_and_mime_type_same_index [OF ne len, of ex_ctx]
  obtain i where i: "i < Suc (Suc 0)"
      "plugin (PluginsLoaded ex_ctx env_legacy_only pdf_request)
         = Some (left_by_filter ex_ctx env_legacy_only pdf_request ([P1, P2] ! i))"
      "actual_mime_type (PluginsLoaded ex_ctx env_legacy_only pdf_request)
         = [''application/pdf'', ''*''] ! i"
    unfolding c m by auto
  have p2: "plugin (PluginsLoaded ex_ctx env_legacy_only pdf_request) = Some P2"
    by (simp add: run_legacy_only_pdf)
  have "P1 \<noteq> P2" by (simp add: P1_def P2_def)
  with i(1,2) p2 l1 l2 have "i = 1" by (cases "i = 0") (auto simp: less_Suc_eq)
  with i c m l2 show ?thesis by simp
qed

text \<open>
  Claim C10 as stated fails: the filter accepts the first candidate and changes its path,
  so the plugin in the reply is neither entry of the plugin vector that
  \<open>GetPluginInfoArray\<close> filled, while the actual MIME type is the first entry of the MIME
  type vector.
\<close>

theorem same_index_counterexample:
  "candidates env_replacing pdf_request = [P1, P2]
   \<and> matched_mime_types env_replacing pdf_request = [''application/pdf'', ''*'']
   \<and> plugin (PluginsLoaded ex_ctx env_replacing pdf_request) \<noteq> Some ([P1, P2] ! 0)
   \<and> plugin (PluginsLoaded ex_ctx env_replacing pdf_request) \<noteq> Some ([P1, P2] ! 1)
   \<and> actual_mime_type (PluginsLoaded ex_ctx env_replacing pdf_request)
       = [''application/pdf'', ''*''] ! 0"
  by (simp add: run_replacing_pdf)
     (simp add: candidates_def matched_mime_types_def ex_defs)

end
